theory Spec2Isabelle
  imports Complex_Main "HOL-Library.AList"
begin

text \<open>
  A model of the onboard controller of the remotely operated vehicle (\<^verbatim>\<open>index.js\<close>, the
  version with named degrees of freedom): the mixing engine, the handlers behind the token
  emitter, the frame decoder, the stream timers and the depth-lock loop.

  Handlers are state transformers on an explicit record of the module's global variables.
  Everything the script observes or causes outside itself is a field of the same record:
  the socket writes, the PWM writes, the live timers, and the current readings of the
  sensors. An exception is a value: a handler returns \<open>Ok s\<close> or \<open>Throw e s\<close>, where \<open>s\<close> is
  the state at the point of return or throw.
\<close>

section \<open>JavaScript numbers\<close>

text \<open>
  Finite doubles are idealised as reals (no rounding, no overflow). \<open>NaN\<close> is kept, because
  the script produces it whenever arithmetic meets \<^verbatim>\<open>undefined\<close>, for instance on an array
  read past the end. Infinities are not modelled: a division by zero is written as \<open>NaN\<close>,
  and the mixing engine never divides by zero (its divisor is at least 1, lemma
  \<open>maxAbs_bound\<close>). Comparisons with \<open>NaN\<close> are false, as in JavaScript.

  The operations below are therefore the script's only while no intermediate value leaves
  the range of doubles: a sum that overflows is \<^verbatim>\<open>Infinity\<close> in the script, and
  \<^verbatim>\<open>Infinity / Infinity\<close> is \<open>NaN\<close> (the vector \<^verbatim>\<open>[1e308, 1e308, 1e308]\<close> mixes to
  \<^verbatim>\<open>[NaN, 1550, NaN, 1550]\<close>). A statement about numbers of any size carries a bound that
  keeps them in range.
\<close>

datatype jsnum = Num real | NaN

fun jsAdd :: "jsnum \<Rightarrow> jsnum \<Rightarrow> jsnum" where
  "jsAdd (Num a) (Num b) = Num (a + b)"
| "jsAdd _ _ = NaN"

fun jsSub :: "jsnum \<Rightarrow> jsnum \<Rightarrow> jsnum" where
  "jsSub (Num a) (Num b) = Num (a - b)"
| "jsSub _ _ = NaN"

fun jsMul :: "jsnum \<Rightarrow> jsnum \<Rightarrow> jsnum" where
  "jsMul (Num a) (Num b) = Num (a * b)"
| "jsMul _ _ = NaN"

fun jsDiv :: "jsnum \<Rightarrow> jsnum \<Rightarrow> jsnum" where
  "jsDiv (Num a) (Num b) = (if b = 0 then NaN else Num (a / b))"
| "jsDiv _ _ = NaN"

fun jsNeg :: "jsnum \<Rightarrow> jsnum" where
  "jsNeg (Num a) = Num (- a)"
| "jsNeg NaN = NaN"

fun jsAbs :: "jsnum \<Rightarrow> jsnum" where
  "jsAbs (Num a) = Num \<bar>a\<bar>"
| "jsAbs NaN = NaN"

fun jsGt :: "jsnum \<Rightarrow> jsnum \<Rightarrow> bool" where
  "jsGt (Num a) (Num b) = (a > b)"
| "jsGt _ _ = False"

fun jsMax :: "jsnum \<Rightarrow> jsnum \<Rightarrow> jsnum" where
  "jsMax (Num a) (Num b) = Num (max a b)"
| "jsMax _ _ = NaN"

fun jsMin :: "jsnum \<Rightarrow> jsnum \<Rightarrow> jsnum" where
  "jsMin (Num a) (Num b) = Num (min a b)"
| "jsMin _ _ = NaN"

text \<open>\<^verbatim>\<open>data[index]\<close> used as a number: past the end it is \<^verbatim>\<open>undefined\<close>, which arithmetic
  turns into \<open>NaN\<close>.\<close>

definition jsIndex :: "jsnum list \<Rightarrow> nat \<Rightarrow> jsnum" where
  "jsIndex xs i = (if i < length xs then xs ! i else NaN)"

section \<open>The actuator mixing engine\<close>

text \<open>
  \<^verbatim>\<open>row.reduce((sum, dir, index) => sum + dir * data[index], 0)\<close>: the raw sum of one
  matrix row. The matrices are constants of the script, so their coefficients are reals.
\<close>

definition rowSum :: "jsnum list \<Rightarrow> real list \<Rightarrow> jsnum" where
  "rowSum data row =
     foldl (\<lambda>sum (dir, index). jsAdd sum (jsMul (Num dir) (jsIndex data index)))
       (Num 0) (zip row [0..<length row])"

definition rawValues :: "jsnum list \<Rightarrow> real list list \<Rightarrow> jsnum list" where
  "rawValues data matrix = map (rowSum data) matrix"

text \<open>\<^verbatim>\<open>rawValues.reduce((accum, val) => Math.abs(val) > accum ? Math.abs(val) : accum, 1)\<close>\<close>

definition maxAbs :: "jsnum list \<Rightarrow> jsnum" where
  "maxAbs raw =
     foldl (\<lambda>accum val. if jsGt (jsAbs val) accum then jsAbs val else accum) (Num 1) raw"

text \<open>\<^verbatim>\<open>calcMotorValues(data, matrix, diff = 400, mid = 1550)\<close>; callers that omit
  \<open>diff\<close> and \<open>mid\<close> pass the defaults here.\<close>

definition calcMotorValues :: "jsnum list \<Rightarrow> real list list \<Rightarrow> real \<Rightarrow> real \<Rightarrow> jsnum list" where
  "calcMotorValues data matrix diff mid =
     (let raw = rawValues data matrix
      in map (\<lambda>element. jsAdd (jsMul (jsDiv element (maxAbs raw)) (Num diff)) (Num mid)) raw)"

text \<open>
  \<^verbatim>\<open>calcMotorValue(data, diff = 400, mid = 1550)\<close> returns
  \<^verbatim>\<open>calcMotorValues([[data]], [[1]])[0]\<close>: its own \<open>diff\<close> and \<open>mid\<close> are not handed on, so
  the inner call runs with the defaults 400 and 1550. The vector element \<^verbatim>\<open>[data]\<close> is a
  one-element array; multiplying it by the coefficient coerces it to the number it holds.
\<close>

definition calcMotorValue :: "jsnum \<Rightarrow> real \<Rightarrow> real \<Rightarrow> jsnum" where
  "calcMotorValue data diff mid = hd (calcMotorValues [data] [[1]] 400 1550)"

definition vectorMapMatrix :: "real list list" where
  "vectorMapMatrix = [[1, 1, 1], [1, -1, -1], [1, 1, -1], [1, -1, 1]]"

definition depthMapMatrix :: "real list list" where
  "depthMapMatrix = [[1, -1], [-1, -1]]"

section \<open>Token payloads, tokens and responses\<close>

text \<open>
  A token body is one of the payload shapes the handlers read: a primitive, or an object
  whose properties are numbers (a DOF update, \<^verbatim>\<open>{interval: n}\<close>, the PID gains). Arrays and
  nested objects are outside this data model.
\<close>

datatype jsval = JUndefined | JNull | JBool bool | JNumber jsnum | JString string
  | JObject "string \<rightharpoonup> jsnum"

text \<open>JavaScript truthiness, as \<^verbatim>\<open>!data.body\<close> and \<^verbatim>\<open>if (data.body)\<close> use it.\<close>

fun truthy :: "jsval \<Rightarrow> bool" where
  "truthy JUndefined = False"
| "truthy JNull = False"
| "truthy (JBool b) = b"
| "truthy (JNumber (Num x)) = (x \<noteq> 0)"
| "truthy (JNumber NaN) = False"
| "truthy (JString s) = (s \<noteq> [])"
| "truthy (JObject m) = True"

datatype error = TypeError | SensorError | Timeout | UnhandledError

text \<open>
  \<^verbatim>\<open>body.k\<close> for the property names the handlers read (\<^verbatim>\<open>interval\<close>, \<^verbatim>\<open>zKp\<close>, \<^verbatim>\<open>zKi\<close>,
  \<^verbatim>\<open>zKd\<close>): a \<^verbatim>\<open>TypeError\<close> on \<^verbatim>\<open>undefined\<close> and \<^verbatim>\<open>null\<close>, \<^verbatim>\<open>undefined\<close> on any other
  primitive.
\<close>

fun prop_of :: "jsval \<Rightarrow> string \<Rightarrow> error + jsval" where
  "prop_of JUndefined k = Inl TypeError"
| "prop_of JNull k = Inl TypeError"
| "prop_of (JObject m) k = Inr (case m k of Some n \<Rightarrow> JNumber n | None \<Rightarrow> JUndefined)"
| "prop_of _ k = Inr JUndefined"

record headers =
  transactionID :: "string option"
  specialType :: "string option"

text \<open>
  A parsed token. \<open>None\<close> stands for an absent property (\<^verbatim>\<open>undefined\<close>); \<open>extra\<close> lists the
  names of the own properties the object has besides \<^verbatim>\<open>type\<close>, \<^verbatim>\<open>headers\<close> and \<^verbatim>\<open>body\<close>.
\<close>

record token =
  tokType :: "string option"
  headers :: "headers option"
  body :: jsval
  extra :: "string list"

text \<open>\<^verbatim>\<open>data.hasOwnProperty(k)\<close> on the token object itself, when the method is the
  inherited one (no own property of the token is named \<^verbatim>\<open>hasOwnProperty\<close>).\<close>

definition tokenHasOwnProperty :: "token \<Rightarrow> string \<Rightarrow> bool" where
  "tokenHasOwnProperty data k =
     (if k = ''type'' then tokType data \<noteq> None
      else if k = ''headers'' then headers data \<noteq> None
      else if k = ''body'' then (case body data of JUndefined \<Rightarrow> False | _ \<Rightarrow> True)
      else k \<in> set (extra data))"

text \<open>
  The string \<^verbatim>\<open>'tokenerror'\<close> that replaces a text \<^verbatim>\<open>JSON.parse\<close> rejects. Reading
  \<^verbatim>\<open>type\<close>, \<^verbatim>\<open>headers\<close> or \<^verbatim>\<open>body\<close> of a string gives \<^verbatim>\<open>undefined\<close>, so to the handlers
  it is the token with every property absent. The same holds for any other non-null
  primitive that \<^verbatim>\<open>JSON.parse\<close> returns.
\<close>

definition tokenerror :: token where
  "tokenerror = \<lparr>tokType = None, headers = None, body = JUndefined, extra = []\<rparr>"

text \<open>The fake token \<^verbatim>\<open>{headers: {transactionID: tid}}\<close> handed to a stream's callback.\<close>

definition streamToken :: "string \<Rightarrow> token" where
  "streamToken tid =
     \<lparr>tokType = None, headers = Some \<lparr>transactionID = Some tid, specialType = None\<rparr>,
      body = JUndefined, extra = []\<rparr>"

text \<open>
  The \<^verbatim>\<open>motorValues\<close> object of \<^verbatim>\<open>setMotors\<close>; \<open>None\<close> is a property never assigned. The
  callback that writes the depth group returns nothing, so \<^verbatim>\<open>motorValues.depth\<close> is an
  array of \<^verbatim>\<open>undefined\<close>.
\<close>

record motorValues =
  vector :: "jsnum list option"
  depth :: "jsval list option"
  manip :: "jsnum option"
  picam :: "jsnum option"
  leveler :: "jsnum option"

datatype rbody = RVal jsval | RMotorValues motorValues | RGains jsval jsval jsval
  | RMag jsnum jsnum jsnum

record response =
  rbody :: rbody
  rtid :: "string option"

definition responseToken :: "rbody \<Rightarrow> string option \<Rightarrow> response" where
  "responseToken b t = \<lparr>rbody = b, rtid = t\<rparr>"

definition emptyObject :: rbody where
  "emptyObject = RVal (JObject Map.empty)"

section \<open>External constants and primitives\<close>

text \<open>
  The token and response type names come from the protocol package \<^verbatim>\<open>nugget-comms\<close>, and
  \<^verbatim>\<open>JSON.parse\<close> and the string-to-number conversion are language primitives; all are
  parameters of the model. A name the package does not define would be \<^verbatim>\<open>undefined\<close>,
  which as an event name is the key \<^verbatim>\<open>"undefined"\<close>.

  \<^verbatim>\<open>JSON.parse\<close> throws (\<open>SyntaxError\<close>), returns \<^verbatim>\<open>null\<close> (\<open>ParsedNull\<close>), or returns a
  value whose properties the \<open>token\<close> record describes.
\<close>

datatype parsed = SyntaxError | ParsedNull | Parsed token

record token_types =
  ECHO :: string
  READMAG :: string
  STARTMAGSTREAM :: string
  STOPMAGSTREAM :: string
  CONTROLLERDATA :: string
  READPITEMP :: string
  STARTPITEMPSTREAM :: string
  STOPPITEMPSTREAM :: string
  SETDEPTHLOCK :: string
  LEDTEST :: string
  PIDTUNE :: string
  SPECIALTOKEN :: string

record response_types =
  MAGDATA :: string
  PITEMPDATA :: string
  MOTORDATA :: string

record config =
  debug :: bool
  tokenTypes :: token_types
  responseTypes :: response_types
  JSON_parse :: "string \<Rightarrow> parsed"
  StringToNumber :: "string \<Rightarrow> jsnum"

section \<open>The controller state\<close>

datatype callback = ReadMag token | ReadPiTemp token | DepthLoop

record timer =
  callback :: callback
  period :: jsval

text \<open>
  The module's variables (\<open>client\<close> is \<^verbatim>\<open>_client\<close>; \<open>depthLockToggle\<close>, initially
  \<^verbatim>\<open>undefined\<close>, is only ever tested for truth and starts as \<open>False\<close>; \<open>targetPressure\<close>,
  initially \<^verbatim>\<open>undefined\<close>, is only used in arithmetic and starts as \<open>NaN\<close>), then the
  runtime's live interval timers, then the traces of what the script did to the outside
  (socket writes per client, \<^verbatim>\<open>setPulseLength\<close> and \<^verbatim>\<open>setDutyCycle\<close> calls, commands to
  the electromagnet, rejected promises nobody handles), then what the outside currently
  answers (pressure sensor, CPU temperature file, electromagnet acknowledgement,
  \<^verbatim>\<open>Math.random\<close>).
\<close>

record state =
  client :: "nat option"
  depthLockToggle :: bool
  targetPressure :: jsnum
  intervals :: "(string \<times> nat) list"
  oldDOFValues :: "string \<rightharpoonup> jsnum"
  zKp :: jsval
  zKi :: jsval
  zKd :: jsval
  timers :: "(nat \<times> timer) list"
  nextTimer :: nat
  socketWrites :: "(nat \<times> response) list"
  pulseLengths :: "(nat \<times> jsnum) list"
  dutyCycles :: "(nat \<times> jsnum) list"
  electromagCommands :: "bool list"
  rejections :: "error list"
  pressure :: "error + jsnum"
  cpuTemp :: "error + jsnum"
  electromagAck :: bool
  random :: "nat \<Rightarrow> real"
  randomCount :: nat

datatype outcome = Ok state | Throw error state

fun stateOf :: "outcome \<Rightarrow> state" where
  "stateOf (Ok s) = s"
| "stateOf (Throw e s) = s"

fun andThen :: "outcome \<Rightarrow> (state \<Rightarrow> outcome) \<Rightarrow> outcome" where
  "andThen (Ok s) f = f s"
| "andThen (Throw e s) f = Throw e s"

text \<open>
  An \<^verbatim>\<open>async\<close> function never throws to its caller: an exception inside it rejects the
  promise it returned, which nobody awaits. Its \<^verbatim>\<open>await\<close> is modelled as atomic (the
  awaited reading is the one in the state); interleaving at the suspension point is not
  modelled. So the model runs two handlers one after the other where the script would run
  the second one's first half before the first one's second half: two engage commands in
  one chunk leave one live depth-lock timer here and two in the script. Nothing below is
  about a handler that is entered while another one is suspended.
\<close>

fun async :: "outcome \<Rightarrow> outcome" where
  "async (Ok s) = Ok s"
| "async (Throw e s) = Ok (s\<lparr>rejections := rejections s @ [e]\<rparr>)"

definition initialState :: state where
  "initialState =
     \<lparr>client = None, depthLockToggle = False, targetPressure = NaN, intervals = [],
      oldDOFValues = [''FB'' \<mapsto> Num 0, ''turn'' \<mapsto> Num 0, ''strafe'' \<mapsto> Num 0,
                      ''pitch'' \<mapsto> Num 0, ''depth'' \<mapsto> Num 0, ''manip'' \<mapsto> Num 0,
                      ''leveler'' \<mapsto> Num 0, ''picam'' \<mapsto> Num 0],
      zKp = JNumber (Num 1), zKi = JNumber (Num 1), zKd = JNumber (Num 0),
      timers = [], nextTimer = 0, socketWrites = [], pulseLengths = [], dutyCycles = [],
      electromagCommands = [], rejections = [],
      pressure = Inl SensorError, cpuTemp = Inl SensorError, electromagAck = False,
      random = (\<lambda>n. 0), randomCount = 0\<rparr>"

section \<open>Timers and the response encoder\<close>

text \<open>\<^verbatim>\<open>setInterval\<close> registers a timer under a fresh handle; \<^verbatim>\<open>clearInterval\<close> of
  \<^verbatim>\<open>undefined\<close> (a name never started) does nothing.\<close>

definition setInterval :: "callback \<Rightarrow> jsval \<Rightarrow> state \<Rightarrow> nat \<times> state" where
  "setInterval cb ms s =
     (nextTimer s,
      s\<lparr>timers := timers s @ [(nextTimer s, \<lparr>callback = cb, period = ms\<rparr>)],
        nextTimer := Suc (nextTimer s)\<rparr>)"

definition clearInterval :: "nat option \<Rightarrow> state \<Rightarrow> state" where
  "clearInterval h s =
     (case h of None \<Rightarrow> s
      | Some i \<Rightarrow> s\<lparr>timers := filter (\<lambda>t. fst t \<noteq> i) (timers s)\<rparr>)"

text \<open>
  \<^verbatim>\<open>sendToken\<close> logs and then calls \<^verbatim>\<open>_client.write(token.stringify())\<close>. With \<^verbatim>\<open>_client\<close>
  \<^verbatim>\<open>null\<close> or \<^verbatim>\<open>undefined\<close> the property read throws a \<^verbatim>\<open>TypeError\<close>. Log lines are not
  part of the state; serialisation is not modelled, the trace holds the response itself.
\<close>

definition sendToken :: "response \<Rightarrow> state \<Rightarrow> outcome" where
  "sendToken tok s =
     (case client s of
        None \<Rightarrow> Throw TypeError s
      | Some c \<Rightarrow> Ok (s\<lparr>socketWrites := socketWrites s @ [(c, tok)]\<rparr>))"

text \<open>The recurring \<^verbatim>\<open>sendToken(new responseToken(b, data.headers.transactionID))\<close>: reading
  \<^verbatim>\<open>transactionID\<close> of absent headers throws before anything is sent.\<close>

definition reply :: "token \<Rightarrow> rbody \<Rightarrow> state \<Rightarrow> outcome" where
  "reply data b s =
     (case headers data of
        None \<Rightarrow> Throw TypeError s
      | Some h \<Rightarrow> sendToken (responseToken b (transactionID h)) s)"

section \<open>Handlers\<close>

definition echo :: "token \<Rightarrow> state \<Rightarrow> outcome" where
  "echo data s = reply data (RVal (body data)) s"

definition readMag :: "config \<Rightarrow> token \<Rightarrow> state \<Rightarrow> outcome" where
  "readMag cfg data s =
     (if debug cfg then
        let r = random s; n = randomCount s;
            s1 = s\<lparr>randomCount := n + 3\<rparr>
        in reply data
             (RMag (Num (r n * 2 * pi - pi)) (Num (r (n + 1) * 2 * pi - pi))
                (Num (r (n + 2) * 2 * pi - pi))) s1
      else Ok s)"

definition startMagStream :: "config \<Rightarrow> token \<Rightarrow> state \<Rightarrow> outcome" where
  "startMagStream cfg data s =
     (let s1 = clearInterval (map_of (intervals s) ''mag'') s in
      case prop_of (body data) ''interval'' of
        Inl e \<Rightarrow> Throw e s1
      | Inr ms \<Rightarrow>
          let (h, s2) = setInterval (ReadMag (streamToken (MAGDATA (responseTypes cfg)))) ms s1;
              s3 = s2\<lparr>intervals := AList.update ''mag'' h (intervals s2)\<rparr>
          in reply data emptyObject s3)"

definition stopMagStream :: "token \<Rightarrow> state \<Rightarrow> outcome" where
  "stopMagStream data s =
     reply data emptyObject (clearInterval (map_of (intervals s) ''mag'') s)"

text \<open>
  \<^verbatim>\<open>motorChannels\<close> and \<^verbatim>\<open>motorChannelGroups\<close>: the vector group is LF, RF, LB, RB on PWM
  channels 8, 1, 9, 2; the depth group is F, B on channels 3, 11.
\<close>

definition motorChannelGroups_vector :: "nat list" where
  "motorChannelGroups_vector = [8, 1, 9, 2]"

definition motorChannelGroups_depth :: "nat list" where
  "motorChannelGroups_depth = [3, 11]"

definition motorChannels_manip :: nat where
  "motorChannels_manip = 0"

definition motorChannels_picam :: nat where
  "motorChannels_picam = 10"

definition motorChannels_leveler :: nat where
  "motorChannels_leveler = 7"

text \<open>
  \<^verbatim>\<open>setChannel\<close> returns its value unchanged; in debug mode it touches no hardware,
  otherwise it calls \<^verbatim>\<open>pca.setPulseLength\<close> and swallows a driver exception. The trace
  records the attempted writes.
\<close>

definition setChannel :: "config \<Rightarrow> nat \<Rightarrow> jsnum \<Rightarrow> state \<Rightarrow> state" where
  "setChannel cfg channel v s =
     (if debug cfg then s else s\<lparr>pulseLengths := pulseLengths s @ [(channel, v)]\<rparr>)"

text \<open>
  The body of a motor token as \<^verbatim>\<open>setMotors\<close> uses it. Its first statement calls
  \<^verbatim>\<open>DOFValues.hasOwnProperty\<close>: on \<^verbatim>\<open>undefined\<close> or \<^verbatim>\<open>null\<close> that throws, and it throws as
  well on an object with an own property named \<^verbatim>\<open>hasOwnProperty\<close>, whose value (parsed
  JSON) hides the inherited method and cannot be called. A primitive has none of the DOF
  keys, and \<^verbatim>\<open>Object.assign\<close> copies nothing from a number or a boolean (from a string it
  would copy index keys, which nothing in the script reads; they are left out).
\<close>

definition dofValues :: "jsval \<Rightarrow> error + (string \<rightharpoonup> jsnum)" where
  "dofValues b =
     (case b of
        JUndefined \<Rightarrow> Inl TypeError
      | JNull \<Rightarrow> Inl TypeError
      | JObject m \<Rightarrow> (case m ''hasOwnProperty'' of None \<Rightarrow> Inr m | Some v \<Rightarrow> Inl TypeError)
      | _ \<Rightarrow> Inr Map.empty)"

text \<open>\<^verbatim>\<open>DOFValues.hasOwnProperty(k)\<close>, once the method is known to be the inherited one.\<close>

definition hasKey :: "(string \<rightharpoonup> jsnum) \<Rightarrow> string \<Rightarrow> bool" where
  "hasKey m k = (m k \<noteq> None)"

text \<open>\<^verbatim>\<open>DOFValues.hasOwnProperty(k) ? DOFValues[k] : oldDOFValues[k]\<close>\<close>

definition pick :: "(string \<rightharpoonup> jsnum) \<Rightarrow> state \<Rightarrow> string \<Rightarrow> jsnum" where
  "pick DOFValues s k =
     (case DOFValues k of
        Some v \<Rightarrow> v
      | None \<Rightarrow> (case oldDOFValues s k of Some v \<Rightarrow> v | None \<Rightarrow> NaN))"

definition setVectorChannels :: "config \<Rightarrow> jsnum list \<Rightarrow> state \<Rightarrow> state" where
  "setVectorChannels cfg vs s =
     foldl (\<lambda>s (v, channel). setChannel cfg channel v s) s (zip vs motorChannelGroups_vector)"

text \<open>The depth group's callback: \<^verbatim>\<open>if (depthLockToggle && index === 1) return;\<close> before
  the write.\<close>

definition setDepthChannels :: "config \<Rightarrow> jsnum list \<Rightarrow> state \<Rightarrow> state" where
  "setDepthChannels cfg vs s =
     foldl (\<lambda>s ((v, index), channel).
              if depthLockToggle s \<and> index = 1 then s else setChannel cfg channel v s)
       s (zip (zip vs [0..<length vs]) motorChannelGroups_depth)"

text \<open>
  What \<^verbatim>\<open>Object.assign(oldDOFValues, DOFValues)\<close> copies: every own key of the update but
  \<^verbatim>\<open>__proto__\<close>, whose assignment goes to the prototype setter, and the setter ignores a
  number.
\<close>

definition assigned :: "(string \<rightharpoonup> jsnum) \<Rightarrow> (string \<rightharpoonup> jsnum)" where
  "assigned DOFValues = DOFValues(''__proto__'' := None)"

definition setMotors :: "config \<Rightarrow> token \<Rightarrow> bool \<Rightarrow> state \<Rightarrow> outcome" where
  "setMotors cfg data fromController s =
     (case dofValues (body data) of
        Inl e \<Rightarrow> Throw e s
      | Inr DOFValues \<Rightarrow>
          let (mvVector, s1) =
                (if hasKey DOFValues ''FB'' \<or> hasKey DOFValues ''turn'' \<or> hasKey DOFValues ''strafe''
                 then let vs = calcMotorValues
                                 [pick DOFValues s ''FB'', pick DOFValues s ''turn'',
                                  pick DOFValues s ''strafe''] vectorMapMatrix 400 1550
                      in (Some vs, setVectorChannels cfg vs s)
                 else (None, s));
              (mvDepth, s2) =
                (if hasKey DOFValues ''pitch'' \<or>
                    (hasKey DOFValues ''depth'' \<and> \<not> depthLockToggle s1 \<and> fromController)
                 then let vs = calcMotorValues
                                 [pick DOFValues s1 ''pitch'', pick DOFValues s1 ''depth'']
                                 depthMapMatrix 400 1550
                      in (Some (map (\<lambda>v. JUndefined) vs), setDepthChannels cfg vs s1)
                 else (None, s1));
              (mvManip, s3) =
                (case DOFValues ''manip'' of
                   Some x \<Rightarrow> let v = calcMotorValue x 400 1550
                             in (Some v, setChannel cfg motorChannels_manip v s2)
                 | None \<Rightarrow> (None, s2));
              (mvPicam, s4) =
                (case DOFValues ''picam'' of
                   Some x \<Rightarrow> let v = calcMotorValue x 400 1550
                             in (Some v, setChannel cfg motorChannels_picam v s3)
                 | None \<Rightarrow> (None, s3));
              (mvLeveler, s5) =
                (case DOFValues ''leveler'' of
                   Some x \<Rightarrow> let v = calcMotorValue x 500 1550
                             in (Some v, setChannel cfg motorChannels_leveler v s4)
                 | None \<Rightarrow> (None, s4));
              motorValues = \<lparr>vector = mvVector, depth = mvDepth, manip = mvManip,
                             picam = mvPicam, leveler = mvLeveler\<rparr>
          in andThen (reply data (RMotorValues motorValues) s5)
               (\<lambda>s6. Ok (s6\<lparr>oldDOFValues := oldDOFValues s6 ++ assigned DOFValues\<rparr>)))"

text \<open>\<^verbatim>\<open>setMotor(data)\<close> wraps \<open>data\<close> in a token tagged \<^verbatim>\<open>responseTypes.MOTORDATA\<close> and calls
  \<^verbatim>\<open>setMotors\<close> with one argument, so \<^verbatim>\<open>fromController\<close> takes its default \<^verbatim>\<open>false\<close>.\<close>

definition setMotor :: "config \<Rightarrow> (string \<rightharpoonup> jsnum) \<Rightarrow> state \<Rightarrow> outcome" where
  "setMotor cfg data s =
     setMotors cfg
       \<lparr>tokType = None,
        headers = Some \<lparr>transactionID = Some (MOTORDATA (responseTypes cfg)), specialType = None\<rparr>,
        body = JObject data, extra = []\<rparr>
       False s"

definition readPiTemp :: "config \<Rightarrow> token \<Rightarrow> state \<Rightarrow> outcome" where
  "readPiTemp cfg data s =
     async
       (if debug cfg then reply data (RVal (JString ''6 bajillion degrees'')) s
        else case cpuTemp s of
               Inl e \<Rightarrow> Throw e s
             | Inr t \<Rightarrow> reply data (RVal (JNumber (jsDiv t (Num 1000)))) s)"

definition startPiTempStream :: "config \<Rightarrow> token \<Rightarrow> state \<Rightarrow> outcome" where
  "startPiTempStream cfg data s =
     (let (h, s1) = setInterval (ReadPiTemp (streamToken (PITEMPDATA (responseTypes cfg))))
                      (body data) s;
          s2 = s1\<lparr>intervals := AList.update ''piTemp'' h (intervals s1)\<rparr>
      in reply data emptyObject s2)"

definition stopPiTempStream :: "token \<Rightarrow> state \<Rightarrow> outcome" where
  "stopPiTempStream data s =
     reply data emptyObject (clearInterval (map_of (intervals s) ''piTemp'') s)"

text \<open>\<^verbatim>\<open>depthSlave.getPressure()\<close>: in debug mode \<^verbatim>\<open>depthSlave\<close> is \<^verbatim>\<open>{}\<close> and the call is a
  \<^verbatim>\<open>TypeError\<close>; otherwise the promise resolves to the reading or rejects.\<close>

definition getPressure :: "config \<Rightarrow> state \<Rightarrow> error + jsnum" where
  "getPressure cfg s = (if debug cfg then Inl TypeError else pressure s)"

definition setDepthLock :: "config \<Rightarrow> token \<Rightarrow> state \<Rightarrow> outcome" where
  "setDepthLock cfg data s =
     async
       (let s1 = clearInterval (map_of (intervals s) ''depthLock'') s in
        if \<not> truthy (body data) then Ok (s1\<lparr>depthLockToggle := False\<rparr>)
        else
          let s2 = s1\<lparr>depthLockToggle := True\<rparr> in
          case getPressure cfg s2 of
            Inl e \<Rightarrow> Throw e s2
          | Inr p \<Rightarrow>
              let s3 = s2\<lparr>targetPressure := p\<rparr>;
                  (h, s4) = setInterval DepthLoop (JNumber (Num 100)) s3;
                  s5 = s4\<lparr>intervals := AList.update ''depthLock'' h (intervals s4)\<rparr>
              in reply data emptyObject s5)"

definition depthLoop :: "config \<Rightarrow> state \<Rightarrow> outcome" where
  "depthLoop cfg s =
     async
       (case getPressure cfg s of
          Inl e \<Rightarrow> Throw e s
        | Inr p \<Rightarrow>
            let error = jsSub (targetPressure s) p;
                dofValue = jsMin (jsMax (Num (- 1)) (jsDiv error (Num 30))) (Num 1)
            in setMotor cfg [''depth'' \<mapsto> jsNeg dofValue] s)"

definition LEDChannels :: "nat list" where
  "LEDChannels = [5, 6]"

text \<open>\<^verbatim>\<open>data.body + 1\<close> as a number: a string body concatenates first.\<close>

fun plusOne :: "config \<Rightarrow> jsval \<Rightarrow> jsnum" where
  "plusOne cfg (JNumber n) = jsAdd n (Num 1)"
| "plusOne cfg JUndefined = NaN"
| "plusOne cfg JNull = Num 1"
| "plusOne cfg (JBool b) = Num (if b then 2 else 1)"
| "plusOne cfg (JString t) = StringToNumber cfg (t @ ''1'')"
| "plusOne cfg (JObject m) = NaN"

definition setLEDBrightness :: "config \<Rightarrow> token \<Rightarrow> state \<Rightarrow> outcome" where
  "setLEDBrightness cfg data s =
     (if debug cfg then Ok s
      else
        let dutyCycle = jsDiv (plusOne cfg (body data)) (Num 2);
            s1 = s\<lparr>dutyCycles := dutyCycles s @ map (\<lambda>channel. (channel, dutyCycle)) LEDChannels\<rparr>
        in reply data emptyObject s1)"

text \<open>
  One line of \<^verbatim>\<open>tunePIDLoop\<close>: \<^verbatim>\<open>if (data.hasOwnProperty(k)) gain = data.body[k];\<close>.
  The test is on the token, the read on its body. A token with an own property named
  \<^verbatim>\<open>hasOwnProperty\<close> hides the inherited method behind a value that cannot be called.
\<close>

definition tuneGain ::
  "token \<Rightarrow> string \<Rightarrow> (jsval \<Rightarrow> state \<Rightarrow> state) \<Rightarrow> state \<Rightarrow> outcome" where
  "tuneGain data k assign s =
     (if ''hasOwnProperty'' \<in> set (extra data) then Throw TypeError s
      else if tokenHasOwnProperty data k then
        (case prop_of (body data) k of
           Inl e \<Rightarrow> Throw e s
         | Inr v \<Rightarrow> Ok (assign v s))
      else Ok s)"

definition tunePIDLoop :: "token \<Rightarrow> state \<Rightarrow> outcome" where
  "tunePIDLoop data s =
     andThen (tuneGain data ''zKp'' (\<lambda>v s. s\<lparr>zKp := v\<rparr>) s) (\<lambda>s1.
     andThen (tuneGain data ''zKi'' (\<lambda>v s. s\<lparr>zKi := v\<rparr>) s1) (\<lambda>s2.
     andThen (tuneGain data ''zKd'' (\<lambda>v s. s\<lparr>zKd := v\<rparr>) s2) (\<lambda>s3.
     reply data (RGains (zKp s3) (zKi s3) (zKd s3)) s3)))"

section \<open>Event emitters and the frame decoder\<close>

type_synonym listener = "token \<Rightarrow> state \<Rightarrow> outcome"

text \<open>
  \<^verbatim>\<open>emitter.emit(name, data)\<close> calls the listeners registered under \<open>name\<close> in order of
  registration; a listener that throws ends the call. An event name is a property key, so
  \<^verbatim>\<open>undefined\<close> is the key \<^verbatim>\<open>"undefined"\<close>. Node throws when \<^verbatim>\<open>'error'\<close> is emitted and has
  no listener.
\<close>

fun callListeners :: "listener list \<Rightarrow> token \<Rightarrow> state \<Rightarrow> outcome" where
  "callListeners [] data s = Ok s"
| "callListeners (l # ls) data s =
     (case l data s of
        Ok s' \<Rightarrow> callListeners ls data s'
      | Throw e s' \<Rightarrow> Throw e s')"

definition eventName :: "string option \<Rightarrow> string" where
  "eventName t = (case t of None \<Rightarrow> ''undefined'' | Some n \<Rightarrow> n)"

definition emit :: "(string \<times> listener) list \<Rightarrow> string option \<Rightarrow> token \<Rightarrow> state \<Rightarrow> outcome" where
  "emit registered t data s =
     (let ls = map snd (filter (\<lambda>r. fst r = eventName t) registered) in
      if ls = [] \<and> eventName t = ''error'' then Throw UnhandledError s
      else callListeners ls data s)"

definition specialTest :: "token \<Rightarrow> state \<Rightarrow> outcome" where
  "specialTest data s = reply data (RVal (JString ''WOOOOO'')) s"

text \<open>
  The electromagnet listener. In debug mode \<^verbatim>\<open>electromagSlave\<close> is \<^verbatim>\<open>{}\<close>, so either call
  is a \<^verbatim>\<open>TypeError\<close>. \<^verbatim>\<open>on()\<close> is awaited and rejects after a second without an answer;
  \<^verbatim>\<open>off()\<close> is not awaited, so its rejection is nobody's.
\<close>

definition specialElectromag :: "config \<Rightarrow> token \<Rightarrow> state \<Rightarrow> outcome" where
  "specialElectromag cfg data s =
     async
       (andThen
          (if debug cfg then Throw TypeError s
           else if truthy (body data) then
             (let s1 = s\<lparr>electromagCommands := electromagCommands s @ [True]\<rparr>
              in if electromagAck s1 then Ok s1 else Throw Timeout s1)
           else
             Ok (s\<lparr>electromagCommands := electromagCommands s @ [False],
                   rejections := rejections s @ (if electromagAck s then [] else [Timeout])\<rparr>))
          (reply data emptyObject))"

definition specialEmitter :: "config \<Rightarrow> (string \<times> listener) list" where
  "specialEmitter cfg = [(''test'', specialTest), (''electromag'', specialElectromag cfg)]"

definition specialToken :: "config \<Rightarrow> token \<Rightarrow> state \<Rightarrow> outcome" where
  "specialToken cfg data s =
     (case headers data of
        None \<Rightarrow> Throw TypeError s
      | Some h \<Rightarrow> emit (specialEmitter cfg) (specialType h) data s)"

definition tokenTypeEmitter :: "config \<Rightarrow> (string \<times> listener) list" where
  "tokenTypeEmitter cfg =
     (let tt = tokenTypes cfg in
      [(ECHO tt, echo),
       (READMAG tt, readMag cfg),
       (STARTMAGSTREAM tt, startMagStream cfg),
       (STOPMAGSTREAM tt, stopMagStream),
       (CONTROLLERDATA tt, \<lambda>data. setMotors cfg data True),
       (READPITEMP tt, readPiTemp cfg),
       (STARTPITEMPSTREAM tt, startPiTempStream cfg),
       (STOPPITEMPSTREAM tt, stopPiTempStream),
       (SETDEPTHLOCK tt, setDepthLock cfg),
       (LEDTEST tt, setLEDBrightness cfg),
       (PIDTUNE tt, tunePIDLoop),
       (SPECIALTOKEN tt, specialToken cfg)])"

text \<open>\<^verbatim>\<open>replace(/}{/g, '}|{')\<close>: matches are found left to right and do not overlap.\<close>

fun insertSeparators :: "string \<Rightarrow> string" where
  "insertSeparators (c # d # cs) =
     (if c = CHR ''}'' \<and> d = CHR ''{''
      then CHR ''}'' # CHR ''|'' # CHR ''{'' # insertSeparators cs
      else c # insertSeparators (d # cs))"
| "insertSeparators cs = cs"

text \<open>\<^verbatim>\<open>String.prototype.split\<close> with a one-character separator: the empty string splits into
  one empty piece.\<close>

fun strSplit :: "char \<Rightarrow> string \<Rightarrow> string list" where
  "strSplit sep [] = [[]]"
| "strSplit sep (c # cs) =
     (if c = sep then [] # strSplit sep cs
      else (case strSplit sep cs of
              t # ts \<Rightarrow> (c # t) # ts
            | [] \<Rightarrow> [[c]]))"

text \<open>
  The body of the \<^verbatim>\<open>forEach\<close> in \<^verbatim>\<open>onClientData\<close>. The \<^verbatim>\<open>try\<close> covers only
  \<^verbatim>\<open>JSON.parse\<close>; reading \<^verbatim>\<open>datum.type\<close> and emitting happen after it, so \<^verbatim>\<open>null\<close> throws
  there and a listener's exception leaves the loop.
\<close>

definition handleDatum :: "config \<Rightarrow> string \<Rightarrow> state \<Rightarrow> outcome" where
  "handleDatum cfg datum s =
     (case JSON_parse cfg datum of
        SyntaxError \<Rightarrow> emit (tokenTypeEmitter cfg) (tokType tokenerror) tokenerror s
      | ParsedNull \<Rightarrow> Throw TypeError s
      | Parsed d \<Rightarrow> emit (tokenTypeEmitter cfg) (tokType d) d s)"

fun forEach :: "(string \<Rightarrow> state \<Rightarrow> outcome) \<Rightarrow> string list \<Rightarrow> state \<Rightarrow> outcome" where
  "forEach f [] s = Ok s"
| "forEach f (x # xs) s =
     (case f x s of
        Ok s' \<Rightarrow> forEach f xs s'
      | Throw e s' \<Rightarrow> Throw e s')"

definition onClientData :: "config \<Rightarrow> string \<Rightarrow> state \<Rightarrow> outcome" where
  "onClientData cfg data s =
     forEach (handleDatum cfg) (strSplit CHR ''|'' (insertSeparators data)) s"

section \<open>Session lifecycle and timer ticks\<close>

definition onServerConnection :: "nat \<Rightarrow> state \<Rightarrow> state" where
  "onServerConnection c s = s\<lparr>client := Some c\<rparr>"

text \<open>\<^verbatim>\<open>Object.values(intervals).map(interval => clearInterval(interval)); _client = null\<close>\<close>

definition onClientDisconnect :: "state \<Rightarrow> state" where
  "onClientDisconnect s =
     (foldl (\<lambda>s h. clearInterval (Some h) s) s (map snd (intervals s)))\<lparr>client := None\<rparr>"

text \<open>One tick of the live timer with handle \<open>i\<close>; a cleared handle does nothing.\<close>

definition fireTimer :: "config \<Rightarrow> nat \<Rightarrow> state \<Rightarrow> outcome" where
  "fireTimer cfg i s =
     (case map_of (timers s) i of
        None \<Rightarrow> Ok s
      | Some t \<Rightarrow>
          (case callback t of
             ReadMag data \<Rightarrow> readMag cfg data s
           | ReadPiTemp data \<Rightarrow> readPiTemp cfg data s
           | DepthLoop \<Rightarrow> depthLoop cfg s))"

section \<open>A sample protocol table and sample states\<close>

text \<open>
  Concrete inputs for the evaluations below. The type names stand in for the ones of
  \<^verbatim>\<open>nugget-comms\<close>; \<open>sampleParse\<close> answers as \<^verbatim>\<open>JSON.parse\<close> does on the two texts that
  are used (one echo token, and anything else taken as malformed).
\<close>

definition sampleTokenTypes :: token_types where
  "sampleTokenTypes =
     \<lparr>ECHO = ''echo'', READMAG = ''readMag'', STARTMAGSTREAM = ''startMagStream'',
      STOPMAGSTREAM = ''stopMagStream'', CONTROLLERDATA = ''controllerData'',
      READPITEMP = ''readPiTemp'', STARTPITEMPSTREAM = ''startPiTempStream'',
      STOPPITEMPSTREAM = ''stopPiTempStream'', SETDEPTHLOCK = ''setDepthLock'',
      LEDTEST = ''LEDTest'', PIDTUNE = ''pidTune'', SPECIALTOKEN = ''special''\<rparr>"

definition sampleToken :: "string \<Rightarrow> string \<Rightarrow> jsval \<Rightarrow> token" where
  "sampleToken ty tid b =
     \<lparr>tokType = Some ty, headers = Some \<lparr>transactionID = Some tid, specialType = None\<rparr>,
      body = b, extra = []\<rparr>"

definition echoText :: string where
  \<open>echoText = ''{"type":"echo","headers":{"transactionID":"abc"},"body":"hello"}''\<close>

definition malformedText :: string where
  \<open>malformedText = ''{"type":"echo","headers":}''\<close>

definition sampleParse :: "string \<Rightarrow> parsed" where
  "sampleParse text =
     (if text = echoText then Parsed (sampleToken ''echo'' ''abc'' (JString ''hello''))
      else SyntaxError)"

definition sampleConfig :: config where
  "sampleConfig =
     \<lparr>debug = False, tokenTypes = sampleTokenTypes,
      responseTypes = \<lparr>MAGDATA = ''magData'', PITEMPDATA = ''piTempData'', MOTORDATA = ''motorData''\<rparr>,
      JSON_parse = sampleParse, StringToNumber = (\<lambda>t. NaN)\<rparr>"

definition connected :: state where
  "connected = onServerConnection 0 initialState"

definition noMotorValues :: motorValues where
  "noMotorValues = \<lparr>vector = None, depth = None, manip = None, picam = None, leveler = None\<rparr>"

text \<open>The state after a client has engaged the depth lock while the sensor read \<open>p\<close>.\<close>

definition lockedAt :: "real \<Rightarrow> state" where
  "lockedAt p =
     stateOf (setDepthLock sampleConfig (sampleToken ''setDepthLock'' ''lock1'' (JBool True))
               (connected\<lparr>pressure := Inr (Num p)\<rparr>))"

definition piTempStart :: token where
  "piTempStart = sampleToken ''startPiTempStream'' ''p1'' (JNumber (Num 500))"

definition piTempTimer :: "config \<Rightarrow> jsval \<Rightarrow> timer" where
  "piTempTimer cfg ms =
     \<lparr>callback = ReadPiTemp (streamToken (PITEMPDATA (responseTypes cfg))), period = ms\<rparr>"

definition lockOff :: token where
  "lockOff = sampleToken ''setDepthLock'' ''lock2'' (JBool False)"

definition tuneEmpty :: token where
  "tuneEmpty = sampleToken ''pidTune'' ''tune1'' (JObject Map.empty)"

definition tuneKp :: token where
  "tuneKp = sampleToken ''pidTune'' ''tune2'' (JObject [''zKp'' \<mapsto> Num 2])"



section \<open>Observations\<close>

text \<open>
  The sum of the magnitudes of the products of one matrix row: no partial sum of the row
  is larger. Then whether \<^verbatim>\<open>JSON.parse\<close> rejects a text, and the thrust-vector pulse
  widths reported by the most recent response.
\<close>

definition absRowSum :: "real list \<Rightarrow> real list \<Rightarrow> real" where
  "absRowSum xs row = sum_list (map (\<lambda>(dir, x). \<bar>dir\<bar> * \<bar>x\<bar>) (zip row xs))"

definition parseFails :: "config \<Rightarrow> string \<Rightarrow> bool" where
  "parseFails cfg text = (case JSON_parse cfg text of SyntaxError \<Rightarrow> True | _ \<Rightarrow> False)"


section \<open>The steps of \<open>setMotors\<close>, named\<close>




definition writesOnly :: "state \<Rightarrow> state \<Rightarrow> bool" where
  "writesOnly s s' = (\<exists>W. s' = s\<lparr>pulseLengths := pulseLengths s @ W\<rparr>)"

section \<open>The mixing engine: range and linearity\<close>

lemma maxAbs_foldl:
  "\<exists>m. foldl (\<lambda>accum val. if jsGt (jsAbs val) accum then jsAbs val else accum) (Num a) raw = Num m
        \<and> a \<le> m \<and> (\<forall>r. Num r \<in> set raw \<longrightarrow> \<bar>r\<bar> \<le> m)"
proof (induction raw arbitrary: a)
  case Nil
  then show ?case by simp
next
  case (Cons v raw)
  show ?case
  proof (cases v)
    case NaN
    with Cons.IH[of a] show ?thesis by auto
  next
    case (Num x)
    show ?thesis
    proof (cases "\<bar>x\<bar> > a")
      case True
      with Cons.IH[of "\<bar>x\<bar>"] Num show ?thesis by auto
    next
      case False
      with Cons.IH[of a] Num show ?thesis by auto
    qed
  qed
qed

lemma maxAbs_bound:
  "\<exists>m. maxAbs raw = Num m \<and> 1 \<le> m \<and> (\<forall>r. Num r \<in> set raw \<longrightarrow> \<bar>r\<bar> \<le> m)"
  unfolding maxAbs_def by (rule maxAbs_foldl)

lemma maxAbs_unit:
  assumes "\<forall>v \<in> set raw. \<exists>x. v = Num x \<and> \<bar>x\<bar> \<le> 1"
  shows "foldl (\<lambda>accum val. if jsGt (jsAbs val) accum then jsAbs val else accum) (Num 1) raw = Num 1"
  using assms by (induction raw) auto

lemma scaled_in_range:
  fixes r m diff mid :: real
  assumes "1 \<le> m" "\<bar>r\<bar> \<le> m" "0 \<le> diff"
  shows "mid - diff \<le> r / m * diff + mid \<and> r / m * diff + mid \<le> mid + diff"
proof -
  define q where "q = r / m"
  from assms(1,2) have "\<bar>q\<bar> \<le> 1" unfolding q_def by (simp add: field_simps)
  then have q: "- 1 \<le> q" "q \<le> 1" by linarith+
  have up: "q * diff \<le> 1 * diff" using q(2) assms(3) by (rule mult_right_mono)
  have lo: "(- 1) * diff \<le> q * diff" using q(1) assms(3) by (rule mult_right_mono)
  have "mid - diff \<le> q * diff + mid \<and> q * diff + mid \<le> mid + diff"
    using up lo by linarith
  then show ?thesis unfolding q_def .
qed

lemma rowSum_foldl_exact:
  "k + length row \<le> length xs \<Longrightarrow>
   foldl (\<lambda>sum (dir, index). jsAdd sum (jsMul (Num dir) (jsIndex (map Num xs) index)))
     (Num a) (zip row [k..<k + length row]) =
   Num (a + sum_list (map (\<lambda>(dir, x). dir * x) (zip row (drop k xs))))"
proof (induction row arbitrary: a k)
  case Nil
  then show ?case by simp
next
  case (Cons d row)
  from Cons.prems have k: "k < length xs" and k': "Suc k + length row \<le> length xs" by simp_all
  have u: "[k..<k + length (d # row)] = k # [Suc k..<Suc k + length row]"
    by (simp add: upt_rec)
  have dr: "drop k xs = xs ! k # drop (Suc k) xs"
    using k by (simp add: Cons_nth_drop_Suc)
  show ?case
    unfolding u using Cons.IH[OF k', of "a + d * xs ! k"] k
    by (simp add: jsIndex_def dr add.assoc)
qed

lemma rowSum_exact:
  assumes "length row \<le> length xs"
  shows "rowSum (map Num xs) row = Num (sum_list (map (\<lambda>(dir, x). dir * x) (zip row xs)))"
  using rowSum_foldl_exact[of 0 row xs 0] assms by (simp add: rowSum_def)

lemma abs_sum_products:
  "\<bar>sum_list (map (\<lambda>(dir, x). dir * x) ps)\<bar> \<le> sum_list (map (\<lambda>(dir, x). \<bar>dir\<bar> * \<bar>x :: real\<bar>) ps)"
proof (induction ps)
  case Nil
  show ?case by simp
next
  case (Cons p ps)
  obtain d x where p: "p = (d, x)" by (cases p)
  have "\<bar>d * x + sum_list (map (\<lambda>(dir, x). dir * x) ps)\<bar>
          \<le> \<bar>d * x\<bar> + \<bar>sum_list (map (\<lambda>(dir, x). dir * x) ps)\<bar>"
    by (rule abs_triangle_ineq)
  with Cons.IH show ?case by (simp add: p abs_mult)
qed

lemma rowSum_bounded:
  assumes "length row \<le> length xs"
  shows "\<exists>r. rowSum (map Num xs) row = Num r \<and> \<bar>r\<bar> \<le> absRowSum xs row"
  using rowSum_exact[OF assms] abs_sum_products[of "zip row xs"]
  by (simp add: absRowSum_def)

text \<open>
  Claim C1, as stated, fails. A vector shorter than a matrix row reads \<^verbatim>\<open>undefined\<close> past its
  end, and every channel becomes \<open>NaN\<close>, which lies in no interval. With a negative
  half-range the interval \<open>[mid - diff, mid + diff]\<close> is empty: at \<open>diff = -400\<close> the output
  1150 is below \<open>mid - diff = 1950\<close>.
\<close>

theorem calcMotorValues_range_counterexample:
  "calcMotorValues [Num 1, Num 0] vectorMapMatrix 400 1550 = [NaN, NaN, NaN, NaN] \<and>
   calcMotorValues [Num 1] [[1]] (- 400) 1550 = [Num 1150] \<and>
   \<not> (1550 - (- 400) \<le> (1150 :: real))"
  by (simp add: calcMotorValues_def rawValues_def rowSum_def maxAbs_def vectorMapMatrix_def
      jsIndex_def upt_rec)

text \<open>
  Claim C1, amended. Take a vector of numbers that is at least as long as every matrix row,
  a half-range \<open>diff\<close> that is not negative, and magnitudes that keep the computation within
  the range of doubles: for every row the sum of \<open>\<bar>M\<^sub>i\<^sub>j\<bar> * \<bar>v\<^sub>j\<bar>\<close> is below \<open>2 ^ 1023\<close>, and so is
  \<open>\<bar>mid\<bar> + diff\<close>. Then \<open>calcMotorValues\<close> produces one pulse width per matrix row, every raw
  row sum is a number below \<open>2 ^ 1023\<close> in magnitude (nothing overflows), and every pulse width
  is a number within \<open>[mid - diff, mid + diff]\<close>.
\<close>

theorem calcMotorValues_range:
  assumes "0 \<le> diff"
    and "\<forall>row \<in> set matrix. length row \<le> length xs"
    and "\<forall>row \<in> set matrix. absRowSum xs row < 2 ^ 1023"
    and "\<bar>mid\<bar> + diff < 2 ^ 1023"
  shows "length (calcMotorValues (map Num xs) matrix diff mid) = length matrix \<and>
         (\<forall>r \<in> set (rawValues (map Num xs) matrix). \<exists>x. r = Num x \<and> \<bar>x\<bar> < 2 ^ 1023) \<and>
         (\<forall>v \<in> set (calcMotorValues (map Num xs) matrix diff mid).
            \<exists>p. v = Num p \<and> mid - diff \<le> p \<and> p \<le> mid + diff \<and> \<bar>p\<bar> < 2 ^ 1023)"
proof -
  let ?raw = "rawValues (map Num xs) matrix"
  obtain m where m: "maxAbs ?raw = Num m" "1 \<le> m" "\<forall>r. Num r \<in> set ?raw \<longrightarrow> \<bar>r\<bar> \<le> m"
    using maxAbs_bound by blast
  have fin: "\<exists>x. e = Num x \<and> \<bar>x\<bar> < 2 ^ 1023" if "e \<in> set ?raw" for e
  proof -
    from that obtain row where row: "row \<in> set matrix" "e = rowSum (map Num xs) row"
      by (auto simp: rawValues_def)
    with assms(2) have "length row \<le> length xs" by blast
    from rowSum_bounded[OF this] obtain r where "rowSum (map Num xs) row = Num r"
      "\<bar>r\<bar> \<le> absRowSum xs row" by blast
    with row assms(3) show ?thesis by fastforce
  qed
  have out: "\<exists>p. jsAdd (jsMul (jsDiv e (maxAbs ?raw)) (Num diff)) (Num mid) = Num p
          \<and> mid - diff \<le> p \<and> p \<le> mid + diff \<and> \<bar>p\<bar> < 2 ^ 1023" if e: "e \<in> set ?raw" for e
  proof -
    from fin[OF e] obtain r where r: "e = Num r" by blast
    with e m(3) have "\<bar>r\<bar> \<le> m" by blast
    from scaled_in_range[OF m(2) this assms(1), of mid]
    have b: "mid - diff \<le> r / m * diff + mid" "r / m * diff + mid \<le> mid + diff" by simp_all
    then have "\<bar>r / m * diff + mid\<bar> \<le> \<bar>mid\<bar> + diff" by linarith
    with assms(4) have "\<bar>r / m * diff + mid\<bar> < 2 ^ 1023" by linarith
    with b show ?thesis using r m(1,2) by simp
  qed
  have 1: "length (calcMotorValues (map Num xs) matrix diff mid) = length matrix"
    by (simp add: calcMotorValues_def Let_def rawValues_def)
  have 3: "\<forall>v \<in> set (calcMotorValues (map Num xs) matrix diff mid).
            \<exists>p. v = Num p \<and> mid - diff \<le> p \<and> p \<le> mid + diff \<and> \<bar>p\<bar> < 2 ^ 1023"
    using out by (auto simp: calcMotorValues_def Let_def)
  from 1 fin 3 show ?thesis by blast
qed

text \<open>
  Claim C2. When every raw channel sum is a number of magnitude at most 1, the output of
  channel \<open>i\<close> is exactly \<open>mid + r\<^sub>i * diff\<close>; and the forward-only command through the
  thrust-vector matrix with \<open>mid = 1550\<close>, \<open>diff = 400\<close> gives 1950 on all four channels.
\<close>

theorem calcMotorValues_linear:
  "((\<forall>r \<in> set (rawValues data matrix). \<exists>x. r = Num x \<and> \<bar>x\<bar> \<le> 1) \<longrightarrow>
      calcMotorValues data matrix diff mid =
        map (\<lambda>r. jsAdd (jsMul r (Num diff)) (Num mid)) (rawValues data matrix))
   \<and> calcMotorValues [Num 1, Num 0, Num 0] vectorMapMatrix 400 1550
        = [Num 1950, Num 1950, Num 1950, Num 1950]"
proof (intro conjI impI)
  assume a: "\<forall>r \<in> set (rawValues data matrix). \<exists>x. r = Num x \<and> \<bar>x\<bar> \<le> 1"
  then have "maxAbs (rawValues data matrix) = Num 1"
    unfolding maxAbs_def by (rule maxAbs_unit)
  moreover have "jsDiv e (Num 1) = e" if "e \<in> set (rawValues data matrix)" for e
    using a that by auto
  ultimately show "calcMotorValues data matrix diff mid =
        map (\<lambda>r. jsAdd (jsMul r (Num diff)) (Num mid)) (rawValues data matrix)"
    by (simp add: calcMotorValues_def Let_def)
next
  show "calcMotorValues [Num 1, Num 0, Num 0] vectorMapMatrix 400 1550
        = [Num 1950, Num 1950, Num 1950, Num 1950]"
    by (simp add: calcMotorValues_def rawValues_def rowSum_def maxAbs_def vectorMapMatrix_def
        jsIndex_def upt_rec)
qed

text \<open>The range theorem at the saturating command FB = turn = strafe = 1.\<close>

theorem calcMotorValues_range_witness:
  "calcMotorValues (map Num [1, 1, 1]) vectorMapMatrix 400 1550
     = [Num 1950, Num (4250 / 3), Num (5050 / 3), Num (5050 / 3)]
   \<and> length (calcMotorValues (map Num [1, 1, 1]) vectorMapMatrix 400 1550) = 4
   \<and> list_all (\<lambda>v. \<exists>p. v = Num p \<and> 1550 - 400 \<le> p \<and> p \<le> 1550 + 400)
        (calcMotorValues (map Num [1, 1, 1]) vectorMapMatrix 400 1550)"
proof -
  have h1: "(0::real) \<le> 400" by simp
  have h2: "\<forall>row \<in> set vectorMapMatrix. length row \<le> length [1, 1, 1 :: real]"
    by (simp add: vectorMapMatrix_def)
  have h3: "\<forall>row \<in> set vectorMapMatrix. absRowSum [1, 1, 1] row < 2 ^ 1023"
    by (simp add: vectorMapMatrix_def absRowSum_def)
  have h4: "\<bar>1550\<bar> + 400 < (2::real) ^ 1023" by simp
  have e: "calcMotorValues (map Num [1, 1, 1]) vectorMapMatrix 400 1550
     = [Num 1950, Num (4250 / 3), Num (5050 / 3), Num (5050 / 3)]"
    by (simp add: calcMotorValues_def rawValues_def rowSum_def maxAbs_def vectorMapMatrix_def
        jsIndex_def upt_rec)
  from calcMotorValues_range[OF h1 h2 h3 h4] e show ?thesis
    by (auto simp: vectorMapMatrix_def list_all_iff)
qed

text \<open>The linear case at FB = 1/2, turn = strafe = 1/4, whose raw sums are 1, 0, 1/2, 1/2.\<close>

theorem calcMotorValues_linear_witness:
  "rawValues [Num (1/2), Num (1/4), Num (1/4)] vectorMapMatrix = [Num 1, Num 0, Num (1/2), Num (1/2)]
   \<and> calcMotorValues [Num (1/2), Num (1/4), Num (1/4)] vectorMapMatrix 400 1550
        = [Num 1950, Num 1550, Num 1750, Num 1750]"
proof -
  have r: "rawValues [Num (1/2), Num (1/4), Num (1/4)] vectorMapMatrix = [Num 1, Num 0, Num (1/2), Num (1/2)]"
    by (simp add: rawValues_def rowSum_def vectorMapMatrix_def jsIndex_def upt_rec)
  have h: "\<forall>r \<in> set (rawValues [Num (1/2), Num (1/4), Num (1/4)] vectorMapMatrix). \<exists>x. r = Num x \<and> \<bar>x\<bar> \<le> 1"
    unfolding r by (simp, intro exI[of _ "1/2"], simp)
  from calcMotorValues_linear[of "[Num (1/2), Num (1/4), Num (1/4)]" vectorMapMatrix 400 1550] h r
  show ?thesis by simp
qed

section \<open>Handlers: what the code does\<close>

lemma setChannel_eq:
  "setChannel cfg c v s = s\<lparr>pulseLengths := pulseLengths s @ (if debug cfg then [] else [(c, v)])\<rparr>"
  by (simp add: setChannel_def)

lemma assigned_depth: "assigned [''depth'' \<mapsto> x] = [''depth'' \<mapsto> x]"
  by (rule ext) (simp add: assigned_def)

lemma setMotor_depth_only:
  "setMotor cfg [''depth'' \<mapsto> x] s =
     andThen (sendToken (responseToken (RMotorValues noMotorValues)
                (Some (MOTORDATA (responseTypes cfg)))) s)
       (\<lambda>s6. Ok (s6\<lparr>oldDOFValues := (oldDOFValues s6)(''depth'' \<mapsto> x)\<rparr>))"
  by (simp add: setMotor_def setMotors_def dofValues_def hasKey_def reply_def noMotorValues_def
      assigned_depth)

lemma lockedAt_fields:
  "depthLockToggle (lockedAt p) = True" "targetPressure (lockedAt p) = Num p"
  "client (lockedAt p) = Some 0" "pulseLengths (lockedAt p) = []"
  "intervals (lockedAt p) = [(''depthLock'', 0)]"
  "timers (lockedAt p) = [(0, \<lparr>callback = DepthLoop, period = JNumber (Num 100)\<rparr>)]"
  "oldDOFValues (lockedAt p) = oldDOFValues initialState"
  "socketWrites (lockedAt p) = [(0, responseToken emptyObject (Some ''lock1''))]"
  by (simp_all add: lockedAt_def setDepthLock_def clearInterval_def getPressure_def
      sampleConfig_def connected_def onServerConnection_def initialState_def sampleToken_def
      setInterval_def reply_def sendToken_def Let_def)

text \<open>
  Claim C3. A correction cycle computes \<open>dofValue\<close> as stated, sends a response tagged
  \<^verbatim>\<open>MOTORDATA\<close> and stores \<open>-dofValue\<close> as the retained depth value, but it drives no motor
  channel: \<open>setMotor\<close> calls \<open>setMotors\<close> with \<open>fromController\<close> false, and the depth group
  is mixed only for a token with a \<open>pitch\<close> key or for a controller token while the lock is
  off. For every configuration and state the cycle adds no PWM write; at target pressure
  1000 and current pressure 970 the retained depth becomes \<open>-1\<close>, the response carries no
  motor values, and no channel is written.
\<close>

theorem depthLoop_drives_no_channel:
  "pulseLengths (stateOf (depthLoop cfg s)) = pulseLengths s \<and>
   (let s' = stateOf (depthLoop sampleConfig ((lockedAt 1000)\<lparr>pressure := Inr (Num 970)\<rparr>))
    in depthLockToggle s' \<and> oldDOFValues s' ''depth'' = Some (Num (- 1)) \<and>
       pulseLengths s' = [] \<and>
       socketWrites s' = socketWrites (lockedAt 1000) @
         [(0, responseToken (RMotorValues noMotorValues) (Some ''motorData''))])"
proof
  show "pulseLengths (stateOf (depthLoop cfg s)) = pulseLengths s"
    by (simp add: depthLoop_def setMotor_depth_only sendToken_def Let_def
        split: sum.splits option.splits)
next
  show "let s' = stateOf (depthLoop sampleConfig ((lockedAt 1000)\<lparr>pressure := Inr (Num 970)\<rparr>))
    in depthLockToggle s' \<and> oldDOFValues s' ''depth'' = Some (Num (- 1)) \<and>
       pulseLengths s' = [] \<and>
       socketWrites s' = socketWrites (lockedAt 1000) @
         [(0, responseToken (RMotorValues noMotorValues) (Some ''motorData''))]"
    by (simp add: depthLoop_def getPressure_def setMotor_depth_only sendToken_def Let_def
        lockedAt_fields sampleConfig_def)
qed

lemma calcMotorValue_formula:
  "calcMotorValue (Num x) diff mid = Num (x / max 1 \<bar>x\<bar> * 400 + 1550)"
  by (simp add: calcMotorValue_def calcMotorValues_def rawValues_def rowSum_def maxAbs_def
      jsIndex_def max_def)

text \<open>
  Claim C8. The three single channels share one formula, but the half-range handed to
  \<open>calcMotorValue\<close> is dropped: the leveler's 500 has no effect, its pulse width is
  \<open>1550 + 400 * x\<close> for \<open>\<bar>x\<bar> \<le> 1\<close>. At leveler input 1 the channel (PWM channel 7) is
  written with 1950, not 2050.
\<close>

theorem leveler_diff_not_forwarded:
  "calcMotorValue x 500 1550 = calcMotorValue x 400 1550 \<and>
   calcMotorValue (Num y) 500 1550 = Num (y / max 1 \<bar>y\<bar> * 400 + 1550) \<and>
   calcMotorValue (Num 1) 500 1550 = Num 1950 \<and>
   pulseLengths (stateOf (setMotors sampleConfig
       (sampleToken ''controllerData'' ''m1'' (JObject [''leveler'' \<mapsto> Num 1])) True connected))
     = [(7, Num 1950)]"
proof (intro conjI)
  show "calcMotorValue x 500 1550 = calcMotorValue x 400 1550"
    by (simp add: calcMotorValue_def)
  show "calcMotorValue (Num y) 500 1550 = Num (y / max 1 \<bar>y\<bar> * 400 + 1550)"
    by (rule calcMotorValue_formula)
  show "calcMotorValue (Num 1) 500 1550 = Num 1950"
    by (simp add: calcMotorValue_formula)
  show "pulseLengths (stateOf (setMotors sampleConfig
       (sampleToken ''controllerData'' ''m1'' (JObject [''leveler'' \<mapsto> Num 1])) True connected))
     = [(7, Num 1950)]"
    by (simp add: calcMotorValue_formula setMotors_def dofValues_def hasKey_def
      sampleToken_def setChannel_eq sampleConfig_def reply_def sendToken_def connected_def
      onServerConnection_def initialState_def motorChannels_leveler_def Let_def)
qed

lemma startPiTempStream_timers:
  "timers (stateOf (startPiTempStream cfg data s)) =
     timers s @ [(nextTimer s, piTempTimer cfg (body data))]"
  by (simp add: startPiTempStream_def setInterval_def reply_def sendToken_def piTempTimer_def
      Let_def split: option.splits)

lemma twice_started:
  "timers (stateOf (startPiTempStream sampleConfig piTempStart
      (stateOf (startPiTempStream sampleConfig piTempStart connected)))) =
    [(0, piTempTimer sampleConfig (JNumber (Num 500))), (1, piTempTimer sampleConfig (JNumber (Num 500)))]"
  "intervals (stateOf (startPiTempStream sampleConfig piTempStart
      (stateOf (startPiTempStream sampleConfig piTempStart connected)))) = [(''piTemp'', 1)]"
  by (simp_all add: startPiTempStream_def setInterval_def reply_def sendToken_def piTempTimer_def
      Let_def piTempStart_def sampleToken_def connected_def onServerConnection_def initialState_def)

lemma fireTimer_piTemp:
  assumes "map_of (timers s) i = Some (piTempTimer cfg ms)" "\<not> debug cfg"
    "cpuTemp s = Inr t" "client s = Some c"
  shows "fireTimer cfg i s =
           Ok (s\<lparr>socketWrites := socketWrites s @
                 [(c, responseToken (RVal (JNumber (jsDiv t (Num 1000))))
                        (Some (PITEMPDATA (responseTypes cfg))))]\<rparr>)"
  using assms
  by (simp add: fireTimer_def piTempTimer_def readPiTemp_def reply_def sendToken_def streamToken_def)

lemma twice_started_more:
  "client (stateOf (startPiTempStream sampleConfig piTempStart
      (stateOf (startPiTempStream sampleConfig piTempStart connected)))) = Some 0"
  "socketWrites (stateOf (startPiTempStream sampleConfig piTempStart
      (stateOf (startPiTempStream sampleConfig piTempStart connected)))) =
    [(0, responseToken emptyObject (Some ''p1'')), (0, responseToken emptyObject (Some ''p1''))]"
  by (simp_all add: startPiTempStream_def setInterval_def reply_def sendToken_def piTempTimer_def
      Let_def piTempStart_def sampleToken_def connected_def onServerConnection_def initialState_def)

lemma twice_started_ticks:
  "map (\<lambda>w. rtid (snd w))
         (socketWrites (stateOf (fireTimer sampleConfig 1
            (stateOf (fireTimer sampleConfig 0
               ((stateOf (startPiTempStream sampleConfig piTempStart
                   (stateOf (startPiTempStream sampleConfig piTempStart connected))))
                \<lparr>cpuTemp := Inr (Num 45000)\<rparr>)))))) =
         [Some ''p1'', Some ''p1'', Some ''piTempData'', Some ''piTempData'']"
proof -
  define s2 where "s2 = (stateOf (startPiTempStream sampleConfig piTempStart
                   (stateOf (startPiTempStream sampleConfig piTempStart connected))))
                \<lparr>cpuTemp := Inr (Num 45000)\<rparr>"
  have nd: "\<not> debug sampleConfig" "PITEMPDATA (responseTypes sampleConfig) = ''piTempData''"
    by (simp_all add: sampleConfig_def)
  have f: "timers s2 = [(0, piTempTimer sampleConfig (JNumber (Num 500))),
                        (1, piTempTimer sampleConfig (JNumber (Num 500)))]"
    "client s2 = Some 0" "cpuTemp s2 = Inr (Num 45000)"
    "socketWrites s2 =
       [(0, responseToken emptyObject (Some ''p1'')), (0, responseToken emptyObject (Some ''p1''))]"
    by (simp_all add: s2_def twice_started twice_started_more)
  have t0: "map_of (timers s2) 0 = Some (piTempTimer sampleConfig (JNumber (Num 500)))"
    by (simp add: f)
  note e0 = fireTimer_piTemp[OF t0 nd(1) f(3) f(2)]
  define s3 where "s3 = stateOf (fireTimer sampleConfig 0 s2)"
  have g: "timers s3 = timers s2" "client s3 = Some 0" "cpuTemp s3 = Inr (Num 45000)"
    "socketWrites s3 = socketWrites s2 @
       [(0, responseToken (RVal (JNumber (Num 45))) (Some ''piTempData''))]"
    by (simp_all add: s3_def e0 f nd)
  have t1: "map_of (timers s3) 1 = Some (piTempTimer sampleConfig (JNumber (Num 500)))"
    by (simp add: g f)
  note e1 = fireTimer_piTemp[OF t1 nd(1) g(3) g(2)]
  have "map (\<lambda>w. rtid (snd w)) (socketWrites (stateOf (fireTimer sampleConfig 1 s3))) =
         [Some ''p1'', Some ''p1'', Some ''piTempData'', Some ''piTempData'']"
    unfolding e1 by (simp add: g f nd responseToken_def)
  then show ?thesis unfolding s3_def s2_def .
qed

text \<open>
  Claim C4. \<open>startPiTempStream\<close> does not cancel a timer already registered under
  \<^verbatim>\<open>piTemp\<close>: it keeps every live timer and adds one. Started twice, handles 0 and 1 are
  both live while \<open>intervals\<close> only remembers handle 1, so neither \<open>stopPiTempStream\<close> nor a
  disconnect stops handle 0, and a tick of each sends its own temperature response.
  (\<open>startMagStream\<close> does cancel first, see \<open>startMagStream_cancels_previous\<close>.)
\<close>

theorem startPiTempStream_leaks_timer:
  "timers (stateOf (startPiTempStream cfg data s)) =
     timers s @ [(nextTimer s, piTempTimer cfg (body data))] \<and>
   (let s2 = stateOf (startPiTempStream sampleConfig piTempStart
                (stateOf (startPiTempStream sampleConfig piTempStart connected)))
    in timers s2 = [(0, piTempTimer sampleConfig (JNumber (Num 500))),
                    (1, piTempTimer sampleConfig (JNumber (Num 500)))] \<and>
       intervals s2 = [(''piTemp'', 1)] \<and>
       timers (stateOf (stopPiTempStream piTempStart s2)) =
         [(0, piTempTimer sampleConfig (JNumber (Num 500)))] \<and>
       timers (onClientDisconnect s2) = [(0, piTempTimer sampleConfig (JNumber (Num 500)))] \<and>
       map (\<lambda>w. rtid (snd w))
         (socketWrites (stateOf (fireTimer sampleConfig 1
            (stateOf (fireTimer sampleConfig 0 (s2\<lparr>cpuTemp := Inr (Num 45000)\<rparr>)))))) =
         [Some ''p1'', Some ''p1'', Some ''piTempData'', Some ''piTempData''])"
  unfolding Let_def
proof (intro conjI)
  let ?s2 = "stateOf (startPiTempStream sampleConfig piTempStart
                (stateOf (startPiTempStream sampleConfig piTempStart connected)))"
  show "timers (stateOf (startPiTempStream cfg data s)) =
     timers s @ [(nextTimer s, piTempTimer cfg (body data))]"
    by (rule startPiTempStream_timers)
  show "timers ?s2 = [(0, piTempTimer sampleConfig (JNumber (Num 500))),
                    (1, piTempTimer sampleConfig (JNumber (Num 500)))]"
    by (rule twice_started)
  show "intervals ?s2 = [(''piTemp'', 1)]"
    by (rule twice_started)
  show "timers (stateOf (stopPiTempStream piTempStart ?s2)) =
         [(0, piTempTimer sampleConfig (JNumber (Num 500)))]"
    by (simp add: twice_started stopPiTempStream_def clearInterval_def reply_def sendToken_def
        split: option.splits)
  show "timers (onClientDisconnect ?s2) = [(0, piTempTimer sampleConfig (JNumber (Num 500)))]"
    by (simp add: twice_started onClientDisconnect_def clearInterval_def)
  show "map (\<lambda>w. rtid (snd w))
         (socketWrites (stateOf (fireTimer sampleConfig 1
            (stateOf (fireTimer sampleConfig 0 (?s2\<lparr>cpuTemp := Inr (Num 45000)\<rparr>)))))) =
         [Some ''p1'', Some ''p1'', Some ''piTempData'', Some ''piTempData'']"
    by (rule twice_started_ticks)
qed

lemma startMagStream_cancels_previous:
  assumes "map_of (intervals s) ''mag'' = Some i" "i < nextTimer s"
  shows "i \<notin> fst ` set (timers (stateOf (startMagStream cfg data s)))"
  using assms
  by (auto simp: startMagStream_def clearInterval_def setInterval_def reply_def sendToken_def
      Let_def split: sum.splits option.splits)

text \<open>
  Claim C9, as stated, fails: with no client connected \<open>sendToken\<close> does not return, it
  throws.
\<close>

theorem sendToken_throws_counterexample:
  "sendToken (responseToken emptyObject (Some ''abc'')) initialState = Throw TypeError initialState"
  by (simp add: sendToken_def initialState_def)

text \<open>
  Claim C9, amended. With no session connected a send delivers nothing and changes nothing,
  and it throws a \<^verbatim>\<open>TypeError\<close> to its caller; this is the case in every state right after
  a disconnect.
\<close>

theorem sendToken_no_client:
  "(client s = None \<longrightarrow> sendToken tok s = Throw TypeError s) \<and>
   sendToken tok (onClientDisconnect s) = Throw TypeError (onClientDisconnect s)"
  by (simp add: sendToken_def onClientDisconnect_def)

text \<open>The amended claim at the initial state, where no client has connected yet.\<close>

theorem sendToken_no_client_witness:
  "client initialState = None \<and>
   sendToken (responseToken emptyObject (Some ''abc'')) initialState = Throw TypeError initialState \<and>
   socketWrites (stateOf (sendToken (responseToken emptyObject (Some ''abc'')) initialState)) = []"
proof -
  have c: "client initialState = None" by (simp add: initialState_def)
  with sendToken_no_client[of initialState "responseToken emptyObject (Some ''abc'')"]
  show ?thesis by (simp add: initialState_def)
qed







lemma writesOnly_trans [trans]: "writesOnly s s1 \<Longrightarrow> writesOnly s1 s2 \<Longrightarrow> writesOnly s s2"
  unfolding writesOnly_def by auto










section \<open>Depth lock, PID gains, frame decoding and partial updates\<close>

text \<open>
  Claim C10. A set-depth-lock token with a falsy body cancels the timer registered under
  \<^verbatim>\<open>depthLock\<close>, sets the lock flag to false and writes nothing to the socket; the handler
  returns right there. With a truthy body, a pressure reading, a connected client and
  headers, the enable path appends the acknowledgement \<^verbatim>\<open>{}\<close> under the token's
  transaction id.
\<close>

theorem setDepthLock_disable_is_silent:
  "(\<not> truthy (body data) \<longrightarrow>
      setDepthLock cfg data s =
        Ok ((clearInterval (map_of (intervals s) ''depthLock'') s)\<lparr>depthLockToggle := False\<rparr>) \<and>
      socketWrites (stateOf (setDepthLock cfg data s)) = socketWrites s \<and>
      \<not> depthLockToggle (stateOf (setDepthLock cfg data s)) \<and>
      (\<forall>i. map_of (intervals s) ''depthLock'' = Some i \<longrightarrow>
           i \<notin> fst ` set (timers (stateOf (setDepthLock cfg data s))))) \<and>
   (truthy (body data) \<and> getPressure cfg s = Inr p \<and> client s = Some c \<and> headers data = Some h \<longrightarrow>
      socketWrites (stateOf (setDepthLock cfg data s)) =
        socketWrites s @ [(c, responseToken emptyObject (transactionID h))])"
proof (intro conjI impI allI)
  assume f: "\<not> truthy (body data)"
  then show e: "setDepthLock cfg data s =
        Ok ((clearInterval (map_of (intervals s) ''depthLock'') s)\<lparr>depthLockToggle := False\<rparr>)"
    by (simp add: setDepthLock_def Let_def)
  show "socketWrites (stateOf (setDepthLock cfg data s)) = socketWrites s"
    by (simp add: e clearInterval_def split: option.splits)
  show "\<not> depthLockToggle (stateOf (setDepthLock cfg data s))"
    by (simp add: e)
  fix i assume "map_of (intervals s) ''depthLock'' = Some i"
  then show "i \<notin> fst ` set (timers (stateOf (setDepthLock cfg data s)))"
    by (auto simp: e clearInterval_def)
next
  assume a: "truthy (body data) \<and> getPressure cfg s = Inr p \<and> client s = Some c \<and> headers data = Some h"
  then have "getPressure cfg (clearInterval (map_of (intervals s) ''depthLock'') s\<lparr>depthLockToggle := True\<rparr>) = Inr p"
    by (simp add: getPressure_def clearInterval_def split: option.splits if_splits)
  with a show "socketWrites (stateOf (setDepthLock cfg data s)) =
        socketWrites s @ [(c, responseToken emptyObject (transactionID h))]"
    by (simp add: setDepthLock_def Let_def setInterval_def reply_def sendToken_def
        clearInterval_def split: option.splits)
qed

text \<open>Disengaging the lock that \<open>lockedAt 1000\<close> engaged: the only response on the socket
  is still the acknowledgement of the engage command.\<close>

theorem setDepthLock_disable_is_silent_witness:
  "\<not> truthy (body lockOff) \<and>
   socketWrites (stateOf (setDepthLock sampleConfig lockOff (lockedAt 1000))) =
     [(0, responseToken emptyObject (Some ''lock1''))] \<and>
   socketWrites (lockedAt 1000) = [(0, responseToken emptyObject (Some ''lock1''))] \<and>
   \<not> depthLockToggle (stateOf (setDepthLock sampleConfig lockOff (lockedAt 1000))) \<and>
   timers (stateOf (setDepthLock sampleConfig lockOff (lockedAt 1000))) = []"
proof -
  have f: "\<not> truthy (body lockOff)" by (simp add: lockOff_def sampleToken_def)
  have t: "timers (stateOf (setDepthLock sampleConfig lockOff (lockedAt 1000))) = []"
    by (simp add: setDepthLock_def Let_def f lockedAt_fields clearInterval_def)
  from setDepthLock_disable_is_silent[of lockOff sampleConfig "lockedAt 1000"] f t
  show ?thesis by (simp add: lockedAt_fields clearInterval_def)
qed



lemma tunePIDLoop_reports:
  assumes "client s = Some c" "headers data = Some h" "tunePIDLoop data s = Ok s'"
  shows "socketWrites s' = socketWrites s @
           [(c, responseToken (RGains (zKp s') (zKi s') (zKd s')) (transactionID h))]"
proof -
  have g: "socketWrites t' = socketWrites t \<and> client t' = client t"
    if "tuneGain data k (\<lambda>v s. f v s) t = Ok t'"
      and "\<And>v s. socketWrites (f v s) = socketWrites s \<and> client (f v s) = client s"
    for k f t t'
    using that by (auto simp: tuneGain_def split: if_splits sum.splits)
  from assms(3) obtain s1 where s1: "tuneGain data ''zKp'' (\<lambda>v s. s\<lparr>zKp := v\<rparr>) s = Ok s1"
    by (cases "tuneGain data ''zKp'' (\<lambda>v s. s\<lparr>zKp := v\<rparr>) s") (auto simp: tunePIDLoop_def)
  with assms(3) obtain s2 where s2: "tuneGain data ''zKi'' (\<lambda>v s. s\<lparr>zKi := v\<rparr>) s1 = Ok s2"
    by (cases "tuneGain data ''zKi'' (\<lambda>v s. s\<lparr>zKi := v\<rparr>) s1") (auto simp: tunePIDLoop_def)
  with s1 assms(3) obtain s3 where s3: "tuneGain data ''zKd'' (\<lambda>v s. s\<lparr>zKd := v\<rparr>) s2 = Ok s3"
    by (cases "tuneGain data ''zKd'' (\<lambda>v s. s\<lparr>zKd := v\<rparr>) s2") (auto simp: tunePIDLoop_def)
  have w: "socketWrites s3 = socketWrites s" "client s3 = client s"
    using g[OF s1] g[OF s2] g[OF s3] by simp_all
  from assms s1 s2 s3 w show ?thesis
    by (auto simp: tunePIDLoop_def reply_def sendToken_def)
qed

lemma depthLoop_gains_commute:
  "stateOf (depthLoop cfg (s\<lparr>zKp := a, zKi := b, zKd := d\<rparr>)) =
     (stateOf (depthLoop cfg s))\<lparr>zKp := a, zKi := b, zKd := d\<rparr>"
  by (simp add: depthLoop_def getPressure_def setMotor_depth_only sendToken_def Let_def
      split: sum.splits option.splits)

lemma depthLoop_law:
  assumes "getPressure cfg s = Inr (Num p)" "targetPressure s = Num t" "client s = Some c"
  shows "oldDOFValues (stateOf (depthLoop cfg s)) ''depth'' =
           Some (Num (- min (max (- 1) ((t - p) / 30)) 1))"
  using assms
  by (simp add: depthLoop_def setMotor_depth_only sendToken_def Let_def)

text \<open>
  Claim C7, as stated, fails: the correction cycle does not apply the stored proportional
  gain. With target 1000 and reading 985 it commands depth \<open>-1/2\<close> whether the stored
  \<open>zKp\<close> is 1 or 5.
\<close>

theorem depthLoop_ignores_gains_counterexample:
  "oldDOFValues (stateOf (depthLoop sampleConfig
      ((lockedAt 1000)\<lparr>pressure := Inr (Num 985), zKp := JNumber (Num 1)\<rparr>))) ''depth''
     = Some (Num (- (1 / 2))) \<and>
   oldDOFValues (stateOf (depthLoop sampleConfig
      ((lockedAt 1000)\<lparr>pressure := Inr (Num 985), zKp := JNumber (Num 5)\<rparr>))) ''depth''
     = Some (Num (- (1 / 2)))"
  by (simp add: depthLoop_def getPressure_def setMotor_depth_only sendToken_def Let_def
      lockedAt_fields sampleConfig_def)

text \<open>
  A tune token of the wire format, with its gain in the body only: \<open>tunePIDLoop\<close> tests the
  token object itself for the property \<^verbatim>\<open>zKp\<close>, finds none, and the stored gain stays 1.
\<close>

lemma tunePIDLoop_body_gain_not_stored:
  "zKp (stateOf (tunePIDLoop tuneKp connected)) = JNumber (Num 1) \<and>
   socketWrites (stateOf (tunePIDLoop tuneKp connected)) =
     [(0, responseToken (RGains (JNumber (Num 1)) (JNumber (Num 1)) (JNumber (Num 0)))
            (Some ''tune2''))]"
  by (simp add: tunePIDLoop_def tuneGain_def tokenHasOwnProperty_def tuneKp_def sampleToken_def
      reply_def sendToken_def connected_def onServerConnection_def initialState_def)

text \<open>
  Claim C7, amended. The response of the PID-tune command reports the gains as they are
  stored when it is sent; the correction cycle commutes with any change of the stored gains
  (it reads none of them), and its law is the fixed proportional one: the retained depth
  becomes \<open>- clamp((target - current) / 30, -1, 1)\<close>.
\<close>

theorem tune_reports_depthLoop_fixed_law:
  "(client s = Some c \<and> headers data = Some h \<and> tunePIDLoop data s = Ok s' \<longrightarrow>
      socketWrites s' = socketWrites s @
        [(c, responseToken (RGains (zKp s') (zKi s') (zKd s')) (transactionID h))]) \<and>
   stateOf (depthLoop cfg (s\<lparr>zKp := a, zKi := b, zKd := d\<rparr>)) =
     (stateOf (depthLoop cfg s))\<lparr>zKp := a, zKi := b, zKd := d\<rparr> \<and>
   (getPressure cfg s = Inr (Num p) \<and> targetPressure s = Num t \<and> client s = Some c \<longrightarrow>
      oldDOFValues (stateOf (depthLoop cfg s)) ''depth'' =
        Some (Num (- min (max (- 1) ((t - p) / 30)) 1)))"
  using tunePIDLoop_reports depthLoop_gains_commute depthLoop_law by blast


text \<open>The amended claim on a tune token with an empty body, and on the cycle at target 1000
  and reading 985.\<close>

theorem tune_reports_depthLoop_fixed_law_witness:
  "tunePIDLoop tuneEmpty connected =
     Ok (connected\<lparr>socketWrites :=
           [(0, responseToken (RGains (JNumber (Num 1)) (JNumber (Num 1)) (JNumber (Num 0)))
                  (Some ''tune1''))]\<rparr>) \<and>
   oldDOFValues (stateOf (depthLoop sampleConfig ((lockedAt 1000)\<lparr>pressure := Inr (Num 985)\<rparr>)))
     ''depth'' = Some (Num (- (1 / 2)))"
proof -
  let ?h = "\<lparr>transactionID = Some ''tune1'', specialType = None\<rparr>"
  let ?s' = "connected\<lparr>socketWrites :=
           [(0, responseToken (RGains (JNumber (Num 1)) (JNumber (Num 1)) (JNumber (Num 0)))
                  (Some ''tune1''))]\<rparr>"
  let ?l = "(lockedAt 1000)\<lparr>pressure := Inr (Num 985)\<rparr>"
  have e: "tunePIDLoop tuneEmpty connected = Ok ?s'"
    by (simp add: tunePIDLoop_def tuneGain_def tokenHasOwnProperty_def tuneEmpty_def
        sampleToken_def reply_def sendToken_def connected_def onServerConnection_def
        initialState_def)
  have c: "client connected = Some 0" "headers tuneEmpty = Some ?h"
    by (simp_all add: connected_def onServerConnection_def tuneEmpty_def sampleToken_def)
  from tune_reports_depthLoop_fixed_law[where s = connected and c = 0 and h = ?h
      and data = tuneEmpty and s' = ?s'] c e
  have 1: "socketWrites ?s' = socketWrites connected @
        [(0, responseToken (RGains (zKp ?s') (zKi ?s') (zKd ?s')) (transactionID ?h))]"
    by blast
  have p: "getPressure sampleConfig ?l = Inr (Num 985)" "targetPressure ?l = Num 1000"
    "client ?l = Some 0"
    by (simp_all add: getPressure_def sampleConfig_def lockedAt_fields)
  from tune_reports_depthLoop_fixed_law[where s = ?l and cfg = sampleConfig and p = 985
      and t = 1000 and c = 0] p
  have "oldDOFValues (stateOf (depthLoop sampleConfig ?l)) ''depth'' =
        Some (Num (- min (max (- 1) ((1000 - 985) / 30)) 1))"
    by blast
  then have 2: "oldDOFValues (stateOf (depthLoop sampleConfig ?l)) ''depth'' = Some (Num (- (1 / 2)))"
    by simp
  from e 1 2 show ?thesis by simp
qed

lemma emit_undefined:
  assumes "''undefined'' \<notin> fst ` set registered"
  shows "emit registered None data s = Ok s"
proof -
  have "filter (\<lambda>r. fst r = ''undefined'') registered = []"
    using assms by (force simp: filter_empty_conv)
  then show ?thesis by (simp add: emit_def eventName_def)
qed

lemma handleDatum_parse_failure:
  assumes "''undefined'' \<notin> fst ` set (tokenTypeEmitter cfg)" "parseFails cfg text"
  shows "handleDatum cfg text s = Ok s"
  using assms(2) emit_undefined[OF assms(1)]
  by (simp add: handleDatum_def parseFails_def tokenerror_def split: parsed.splits)

lemma forEach_skips_failures:
  assumes "''undefined'' \<notin> fst ` set (tokenTypeEmitter cfg)"
  shows "forEach (handleDatum cfg) texts s =
         forEach (handleDatum cfg) (filter (\<lambda>t. \<not> parseFails cfg t) texts) s"
proof (induction texts arbitrary: s)
  case Nil
  show ?case by simp
next
  case (Cons t texts)
  show ?case
  proof (cases "parseFails cfg t")
    case True
    with handleDatum_parse_failure[OF assms True] Cons.IH show ?thesis by simp
  next
    case False
    with Cons.IH show ?thesis by (simp split: outcome.splits)
  qed
qed

lemma forEach_single: "forEach f [x] s = f x s"
  by (cases "f x s") simp_all

text \<open>
  Claim C6. Provided no token type of the protocol is the string \<^verbatim>\<open>"undefined"\<close> (the
  event name under which a rejected text is emitted), a text that \<^verbatim>\<open>JSON.parse\<close> rejects
  leaves the state as it is: no listener runs and nothing is sent. A chunk is therefore
  handled exactly as its parsable texts alone would be, and a rejected text followed by
  another text is handled as that other text alone.
\<close>

theorem parse_failure_is_isolated:
  assumes "''undefined'' \<notin> fst ` set (tokenTypeEmitter cfg)"
  shows "(parseFails cfg text \<longrightarrow> handleDatum cfg text s = Ok s) \<and>
         onClientData cfg data s =
           forEach (handleDatum cfg)
             (filter (\<lambda>t. \<not> parseFails cfg t) (strSplit CHR ''|'' (insertSeparators data))) s \<and>
         (parseFails cfg bad \<longrightarrow>
            forEach (handleDatum cfg) [bad, good] s = handleDatum cfg good s)"
proof (intro conjI impI)
  assume "parseFails cfg text"
  then show "handleDatum cfg text s = Ok s"
    by (rule handleDatum_parse_failure[OF assms])
next
  show "onClientData cfg data s =
           forEach (handleDatum cfg)
             (filter (\<lambda>t. \<not> parseFails cfg t) (strSplit CHR ''|'' (insertSeparators data))) s"
    unfolding onClientData_def by (rule forEach_skips_failures[OF assms])
next
  assume b: "parseFails cfg bad"
  have "forEach (handleDatum cfg) [bad, good] s = forEach (handleDatum cfg) [good] s"
    using handleDatum_parse_failure[OF assms b, of s] by simp
  then show "forEach (handleDatum cfg) [bad, good] s = handleDatum cfg good s"
    by (simp only: forEach_single)
qed

lemma sample_texts:
  "strSplit CHR ''|'' (insertSeparators (malformedText @ echoText)) = [malformedText, echoText]"
  "parseFails sampleConfig malformedText" "\<not> parseFails sampleConfig echoText"
  by (simp_all add: malformedText_def echoText_def parseFails_def sampleConfig_def sampleParse_def)

lemma sample_no_undefined: "''undefined'' \<notin> fst ` set (tokenTypeEmitter sampleConfig)"
  by (simp add: tokenTypeEmitter_def sampleConfig_def sampleTokenTypes_def Let_def)

lemma sample_echo:
  "handleDatum sampleConfig echoText connected =
     Ok (connected\<lparr>socketWrites := [(0, responseToken (RVal (JString ''hello'')) (Some ''abc''))]\<rparr>)"
  by (simp add: handleDatum_def sampleConfig_def sampleParse_def tokenTypeEmitter_def
      sampleTokenTypes_def emit_def eventName_def sampleToken_def echo_def reply_def sendToken_def
      connected_def onServerConnection_def initialState_def Let_def echoText_def)

text \<open>A chunk of a malformed text followed by an echo token: the echo is answered.\<close>

theorem parse_failure_is_isolated_witness:
  "strSplit CHR ''|'' (insertSeparators (malformedText @ echoText)) = [malformedText, echoText] \<and>
   parseFails sampleConfig malformedText \<and>
   handleDatum sampleConfig malformedText connected = Ok connected \<and>
   onClientData sampleConfig (malformedText @ echoText) connected =
     Ok (connected\<lparr>socketWrites := [(0, responseToken (RVal (JString ''hello'')) (Some ''abc''))]\<rparr>)"
proof -
  note t = parse_failure_is_isolated[OF sample_no_undefined,
      of malformedText connected "malformedText @ echoText" malformedText echoText]
  from t sample_texts(2) have 1: "handleDatum sampleConfig malformedText connected = Ok connected"
    by blast
  from t have "onClientData sampleConfig (malformedText @ echoText) connected =
      forEach (handleDatum sampleConfig) [echoText] connected"
    by (simp add: sample_texts)
  then have 2: "onClientData sampleConfig (malformedText @ echoText) connected =
     Ok (connected\<lparr>socketWrites := [(0, responseToken (RVal (JString ''hello'')) (Some ''abc''))]\<rparr>)"
    by (simp add: sample_echo)
  from 1 2 sample_texts show ?thesis by blast
qed













end
